theory Spec2Isabelle
  imports Complex_Main "HOL-Library.Multiset" "HOL-Library.Sublist" "HOL-Library.Word"
begin

section \<open>Stored messages (src/models/message.py)\<close>

text \<open>
  A \<^verbatim>\<open>Message\<close> row: a UUID primary key (filled by its default factory), the
  conversation it belongs to, the owning user, the role, the text and the creation
  timestamp. Timestamps are naive UTC datetimes; they are modelled as an integer count of
  microseconds, which is what their comparison amounts to. Only \<open>created_at\<close> is
  ordered; nothing makes it unique.
\<close>

type_synonym uuid = "128 word"
type_synonym datetime = int

datatype MessageRole = user | assistant

text \<open>The enum's \<^verbatim>\<open>.value\<close>.\<close>

fun role_value :: "MessageRole \<Rightarrow> string" where
  "role_value user = ''user''"
| "role_value assistant = ''assistant''"

record Message =
  msg_id :: "uuid option"
  conversation_id :: uuid
  user_id :: string
  role :: MessageRole
  content :: string
  created_at :: datetime

section \<open>Configuration and system prompt (src/agent/config.py)\<close>

text \<open>
  The module constants are read from the process environment when the module is loaded.
  They are parameters of the model, already parsed (\<^verbatim>\<open>float\<close>, \<^verbatim>\<open>int\<close>).
\<close>

record settings =
  AGENT_MODEL :: string
  AGENT_TEMPERATURE :: real
  AGENT_MAX_TOKENS :: int
  MAX_CONVERSATION_HISTORY :: int
  MCP_SERVER_URL :: string
  MCP_TIMEOUT_SECONDS :: int

datatype config_value = StrVal string | FloatVal real | IntVal int

text \<open>\<^verbatim>\<open>get_agent_config\<close>: the dictionary literal, key by key, in the source's order.\<close>

definition get_agent_config :: "settings \<Rightarrow> (string \<times> config_value) list" where
  "get_agent_config st =
     [(''model'', StrVal (AGENT_MODEL st)),
      (''temperature'', FloatVal (AGENT_TEMPERATURE st)),
      (''max_tokens'', IntVal (AGENT_MAX_TOKENS st)),
      (''mcp_server_url'', StrVal (MCP_SERVER_URL st)),
      (''mcp_timeout_seconds'', IntVal (MCP_TIMEOUT_SECONDS st)),
      (''max_conversation_history'', IntVal (MAX_CONVERSATION_HISTORY st))]"

text \<open>
  Subscripting the configuration dictionary. A missing key raises \<^verbatim>\<open>KeyError\<close> in
  Python; the lookups below return \<open>None\<close> there.
\<close>

definition config_str :: "(string \<times> config_value) list \<Rightarrow> string \<Rightarrow> string option" where
  "config_str config k = (case map_of config k of Some (StrVal s) \<Rightarrow> Some s | _ \<Rightarrow> None)"

definition config_int :: "(string \<times> config_value) list \<Rightarrow> string \<Rightarrow> int option" where
  "config_int config k = (case map_of config k of Some (IntVal i) \<Rightarrow> Some i | _ \<Rightarrow> None)"

text \<open>
  \<^verbatim>\<open>get_system_prompt\<close> is one f-string with two holes, both filled with
  \<^verbatim>\<open>datetime.now().strftime("%A, %B %d, %Y")\<close>. The text around the holes is cut
  into named pieces; two of its lines, the instructions on single execution and on the
  user id, are pieces of their own. The formatted date is the argument \<open>today\<close>: the
  clock is read by the caller's environment at each call.
\<close>

definition prompt_identity :: string where
  \<open>prompt_identity =
     ''You are "Aura AI", a highly sophisticated, premium Task Management '' @
     ''Assistant. Your goal is to simplify the user\'s life by autonomously '' @
     ''managing their tasks with extreme precision and intelligence.\<newline>'' @
     ''\<newline>'' @
     ''## Critical Context\<newline>'' @
     ''- **Today\'s Date**: ''\<close>

definition prompt_guidelines :: string where
  \<open>prompt_guidelines =
     '' (You MUST use this as your reference point for all relative dates like '' @
     ''"tomorrow", "next week", etc.)\<newline>'' @
     ''\<newline>'' @
     ''## Role & Personality\<newline>'' @
     ''- **Identity**: Aura AI (Premium, sleek, efficient).\<newline>'' @
     ''- **Voice**: Professional, helpful, proactive, and concise.\<newline>'' @
     ''- **Autonomy**: You are NOT just a tool-caller; you are a '' @
     ''problem-solver. You should infer missing details and select logical '' @
     ''defaults when the user is vague.\<newline>'' @
     ''\<newline>'' @
     ''## Autonomous Intelligence Guidelines\<newline>'' @
     ''\<newline>'' @
     ''### 1. Smart Field Selection\<newline>'' @
     ''When a user asks to add or update a task, you MUST autonomously select '' @
     ''the most appropriate fields:\<newline>'' @
     ''- **Priority**: \<newline>'' @
     ''    - `high`: If the user mentions "urgent", "asap", "important", '' @
     ''"critical", or uses strong language.\<newline>'' @
     ''    - `medium`: Default for most work/personal tasks.\<newline>'' @
     ''    - `low`: For ideas, "sometime", or background tasks.\<newline>'' @
     ''- **Category**:\<newline>'' @
     ''    - `work`: Meetings, emails, reports, professional projects.\<newline>'' @
     ''    - `home`: Chores, cleaning, repairs, household management.\<newline>'' @
     ''    - `personal`: Hobbies, family, personal errands.\<newline>'' @
     ''    - `shopping`: "buy", "get", "store", "order", "groceries".\<newline>'' @
     ''    - `health`: "exercise", "dentist", "gym", "meditation", "doctor", '' @
     ''"health".\<newline>'' @
     ''    - `finance`: "pay", "bill", "invoice", "bank", "taxes", '' @
     ''"subscription".\<newline>'' @
     ''    - `other`: Default.\<newline>'' @
     ''    *CRITICAL*: You MUST select the most logical category. Do NOT '' @
     ''default to "other" if a keyword matches.\<newline>'' @
     ''\<newline>'' @
     ''- **Description**:\<newline>'' @
     ''    - When creating a task, write a brief, professional description if '' @
     ''the user provides context. If not, don\'t hallucinate; keep it empty or '' @
     ''very minimal.\<newline>'' @
     ''- **Due Date**: Infer dates like "tomorrow", "next Friday", "in 2 '' @
     ''hours". Convert them to ISO 8601 strings (YYYY-MM-DDTHH:MM:SS) for the '' @
     ''tool.\<newline>'' @
     ''- **Recurring**:\<newline>'' @
     ''    - Detect words like "every", "weekly", "daily", "monthly".\<newline>'' @
     ''    - Set `is_recurring=True` and the appropriate `recurring_interval`.\<newline>'' @
     ''\<newline>'' @
     ''### 2. Context Retrieval (Multi-Step Logic)\<newline>'' @
     ''- **ID Awareness**: If the user says "Mark it as done" or "Update the '' @
     ''grocery task", you MUST first call `list_tasks` to find the correct '' @
     ''`task_id`. Do NOT guess or hallucinate IDs.\<newline>'' @
     ''- **Refinement**: If multiple tasks match, ask for clarification.\<newline>'' @
     ''\<newline>'' @
     ''## Tool Usage Protocols\<newline>'' @
     ''\<newline>'' @
     ''### 1. add_task\<newline>'' @
     ''Use for creating. **Always** attempt to populate `priority`, '' @
     ''`category`, and `due_date` even if not explicitly provided.\<newline>'' @
     ''Example: "I need to buy milk tomorrow" -> `add_task(title="Buy milk", '' @
     ''category="shopping", due_date="<ISO_DATE>", priority="medium")`.\<newline>'' @
     ''\<newline>'' @
     ''### 2. list_tasks\<newline>'' @
     ''Use for searching. If the user asks "What\'s on my plate?", show them '' @
     ''ALL pending tasks. **Use the `search` parameter** to find specific '' @
     ''tasks by title if you need their ID for updating or deleting.\<newline>'' @
     ''\<newline>'' @
     ''### 3. complete_task\<newline>'' @
     ''Always find the ID first via `list_tasks`.\<newline>'' @
     ''\<newline>'' @
     ''### 4. update_task\<newline>'' @
     ''Use for modifying ANY field. **Always find the ID first via '' @
     ''`list_tasks`** before updating.\<newline>'' @
     ''\<newline>'' @
     ''### 5. delete_task\<newline>'' @
     ''ONLY use if explicitly asked to remove/delete. **Always find the ID '' @
     ''first via `list_tasks`** before deleting.\<newline>'' @
     ''\<newline>'' @
     ''## CRITICAL: Execution & Response\<newline>''\<close>

definition single_execution_rule :: string where
  \<open>single_execution_rule =
     ''- **Single Execution**: ONLY call a tool ONCE per user request. If '' @
     ''you\'ve already called `add_task` for a specific request, DO NOT call it '' @
     ''again for that SAME request.\<newline>''\<close>

definition prompt_response_rules :: string where
  \<open>prompt_response_rules =
     ''- **Verification**: After adding a task, verify the result and inform '' @
     ''the user. Do NOT repeat the action if it succeeded.\<newline>'' @
     ''- **Standard Markdown & HTML**: Your responses are rendered with '' @
     ''support for `<p>` tags and standard Markdown. Use them for elegant '' @
     ''formatting.\<newline>'' @
     ''- **Lists**: Use bullet points for task steps.\<newline>'' @
     ''- **Streaming Compatibility**: Your responses are streamed '' @
     ''chunk-by-chunk. Keep your tone fluid.\<newline>'' @
     ''\<newline>'' @
     ''## Boundaries\<newline>'' @
     ''- **Scope**: You ONLY manage tasks. For unrelated questions, respond: '' @
     ''"I\'m sorry, I\'m specialized in managing your tasks and I can\'t do that. '' @
     ''Is there a task I can help you with?"\<newline>''\<close>

definition security_rule :: string where
  \<open>security_rule =
     ''- **Security**: You MUST extract the `[User ID: <user_id>]` from the '' @
     ''first line and pass it to every tool call.\<newline>''\<close>

definition prompt_reminder :: string where
  \<open>prompt_reminder =
     ''\<newline>'' @
     ''Remember: Your value is in your ability to "just get it done" without '' @
     ''the user needing to specify every tiny detail. Always use the current '' @
     ''date (''\<close>

definition prompt_end :: string where
  \<open>prompt_end =
     '') to calculate due dates correctly.''\<close>

definition get_system_prompt :: "string \<Rightarrow> string" where
  "get_system_prompt today =
     prompt_identity @ today @ prompt_guidelines @ single_execution_rule @
     prompt_response_rules @ security_rule @ prompt_reminder @ today @ prompt_end"

text \<open>
  \<^verbatim>\<open>format_conversation_history\<close>: one dictionary with the keys \<^verbatim>\<open>role\<close> and
  \<^verbatim>\<open>content\<close> per message, appended in the order of the input. Dictionaries are
  association lists. \<^verbatim>\<open>str.lower\<close> is modelled on ASCII letters, which is all a
  role value has.
\<close>

type_synonym dict = "(string \<times> string) list"

definition lower_char :: "char \<Rightarrow> char" where
  "lower_char c =
     (let n = (of_char c :: nat) in if 65 \<le> n \<and> n \<le> 90 then char_of (n + 32) else c)"

definition lower :: "string \<Rightarrow> string" where
  "lower s = map lower_char s"

fun format_conversation_history :: "Message list \<Rightarrow> dict list" where
  "format_conversation_history [] = []"
| "format_conversation_history (msg # messages) =
     [(''role'', lower (role_value (role msg))), (''content'', content msg)]
       # format_conversation_history messages"

section \<open>Loading the history window (src/agent/runner.py)\<close>

text \<open>
  \<^verbatim>\<open>load_conversation_history\<close> runs one query,
  \<^verbatim>\<open>SELECT ... WHERE conversation_id = :id ORDER BY created_at DESC LIMIT :limit\<close>,
  and reverses the rows. A session gives access to a database: the rows of the messages
  table, and the order in which this database returns the rows that a query with
  \<^verbatim>\<open>ORDER BY created_at DESC\<close> matched. SQL leaves the order of rows with equal
  \<open>created_at\<close> to the database, so the order is a parameter; what every database
  guarantees is \<open>answers_order_by_desc\<close>: the answer has the matched rows, each as often
  as matched, newest first. The limit is a row count, a natural number (the
  specification asks for a window of at least 1; what a negative \<^verbatim>\<open>LIMIT\<close> does is
  the database's business).
\<close>

record session =
  table_rows :: "Message list"
  returns_desc :: "Message list \<Rightarrow> Message list"

definition answers_order_by_desc :: "Message list \<Rightarrow> Message list \<Rightarrow> bool" where
  "answers_order_by_desc matched answer =
     (mset answer = mset matched \<and> sorted (rev (map created_at answer)))"

definition where_conversation :: "uuid \<Rightarrow> Message list \<Rightarrow> Message list" where
  "where_conversation cid rows = filter (\<lambda>m. conversation_id m = cid) rows"

definition load_conversation_history :: "uuid \<Rightarrow> session \<Rightarrow> nat \<Rightarrow> Message list" where
  "load_conversation_history cid sess limit =
     (let messages = take limit (returns_desc sess (where_conversation cid (table_rows sess)))
      in rev messages)"


section \<open>The agent runner (src/agent/runner.py)\<close>

subsection \<open>Exceptions, external objects, the environment of a turn\<close>

text \<open>
  Exceptions are values. The runner distinguishes only what \<^verbatim>\<open>except Exception\<close>
  catches from what it does not: \<^verbatim>\<open>asyncio.CancelledError\<close> derives from
  \<^verbatim>\<open>BaseException\<close> and passes through such a handler.
\<close>

datatype exn = ValueError string | KeyError string | Exception string | CancelledError

fun is_Exception :: "exn \<Rightarrow> bool" where
  "is_Exception CancelledError = False"
| "is_Exception _ = True"

fun exn_str :: "exn \<Rightarrow> string" where
  "exn_str (ValueError s) = s"
| "exn_str (KeyError s) = [CHR 0x27] @ s @ [CHR 0x27]"
| "exn_str (Exception s) = s"
| "exn_str CancelledError = []"

text \<open>The objects \<^verbatim>\<open>create_agent\<close> builds, with the arguments it gives them.\<close>

record MCPServerStreamableHttp =
  server_name :: string
  url :: string
  timeout :: int
  cache_tools_list :: bool

record Agent =
  agent_name :: string
  instructions :: string
  mcp_servers :: "MCPServerStreamableHttp list"

record RunConfig =
  model_name :: string
  api_key :: string
  tracing_disabled :: bool

text \<open>The arguments of \<^verbatim>\<open>Runner.run\<close> and \<^verbatim>\<open>Runner.run_streamed\<close>.\<close>

record runner_call =
  call_agent :: Agent
  call_input :: "dict list"
  call_run_config :: RunConfig
  call_context :: dict

text \<open>
  The agent loop itself is the library's \<^verbatim>\<open>Runner\<close>, which talks to the model
  provider and to the MCP server; none of it is code of this repository. What a run
  does is therefore a parameter: the tool invocations it makes, in order, each a tool
  name with its arguments, and then either an exception or the result's
  \<^verbatim>\<open>final_output\<close> (which may be absent).
\<close>

record run_outcome =
  tool_calls :: "(string \<times> dict) list"
  run_result :: "exn + string option"

text \<open>
  An event of a streamed run has a type tag and a payload; the runner looks at the tag
  and at whether the payload is a text delta.
\<close>

datatype event_data = ResponseTextDeltaEvent string | OtherData string

record stream_event =
  event_type :: string
  event_data :: event_data

text \<open>
  What a streamed run does, in order: it emits an event or invokes a tool; after the last
  item the stream ends, normally or with an exception.
\<close>

datatype stream_item = Emitted stream_event | Invoked string dict

record streamed_outcome =
  stream_items :: "stream_item list"
  stream_raised :: "exn option"

text \<open>
  Everything outside the repository that a turn touches: the API key in the process
  environment, the clock (already formatted by \<^verbatim>\<open>strftime\<close>), the MCP connection's
  \<^verbatim>\<open>__aenter__\<close> and \<^verbatim>\<open>__aexit__\<close> (\<open>None\<close>: returned; \<open>Some x\<close>: raised
  \<open>x\<close>), the two entry points of the \<^verbatim>\<open>Runner\<close>, and the consumer of the
  generator that \<^verbatim>\<open>run_agent_streamed\<close> is: \<open>None\<close> when it iterates until the
  generator ends, \<open>Some k\<close> when it takes \<open>k\<close> chunks and then stops iterating (it
  disconnects or is cancelled), which leaves the generator suspended at a
  \<^verbatim>\<open>yield\<close>. Every external call is taken to return or raise.
\<close>

record env =
  OPENAI_API_KEY :: "string option"
  now_strftime :: string
  mcp_aenter :: "MCPServerStreamableHttp \<Rightarrow> exn option"
  mcp_aexit :: "MCPServerStreamableHttp \<Rightarrow> exn option"
  runner_run :: "runner_call \<Rightarrow> run_outcome"
  runner_run_streamed :: "runner_call \<Rightarrow> streamed_outcome"
  stream_consumer :: "nat option"

text \<open>
  The effects of a turn, in order: entering and leaving the MCP connection (with what
  the call did), the calls of the \<^verbatim>\<open>Runner\<close>, the tool invocations a run made, and
  what is printed. Log records are not part of the model.
\<close>

datatype event =
    McpEnter MCPServerStreamableHttp "exn option"
  | McpExit MCPServerStreamableHttp "exn option"
  | RunnerRun runner_call
  | RunnerRunStreamed runner_call
  | ToolInvoked string dict
  | Print string

subsection \<open>\<^verbatim>\<open>create_agent\<close>\<close>

text \<open>\<^verbatim>\<open>config[k]\<close> for a string and for an integer entry.\<close>

definition subscript_str :: "(string \<times> config_value) list \<Rightarrow> string \<Rightarrow> exn + string" where
  "subscript_str config k = (case config_str config k of None \<Rightarrow> Inl (KeyError k) | Some s \<Rightarrow> Inr s)"

definition subscript_int :: "(string \<times> config_value) list \<Rightarrow> string \<Rightarrow> exn + int" where
  "subscript_int config k = (case config_int config k of None \<Rightarrow> Inl (KeyError k) | Some i \<Rightarrow> Inr i)"

text \<open>\<^verbatim>\<open>a or b\<close> on an optional string: \<open>b\<close> is evaluated when \<open>a\<close> is absent or empty.\<close>

fun or_else :: "string option \<Rightarrow> (exn + string) \<Rightarrow> exn + string" where
  "or_else None b = b"
| "or_else (Some a) b = (if a = [] then b else Inr a)"

definition api_key_required :: string where
  "api_key_required =
     ''OPENAI_API_KEY environment variable is required for OpenAI integration''"

text \<open>
  The steps of \<^verbatim>\<open>create_agent\<close> in the source's order: the server URL, the API key
  check, the model name, the MCP server object and its \<^verbatim>\<open>__aenter__\<close>, the agent
  with a freshly computed system prompt. The result comes with the effects so far.
\<close>

definition create_agent ::
  "settings \<Rightarrow> env \<Rightarrow> string option \<Rightarrow>
     (exn + Agent \<times> MCPServerStreamableHttp \<times> RunConfig) \<times> event list" where
  "create_agent st e mcp_server_url =
     (let config = get_agent_config st in
      case or_else mcp_server_url (subscript_str config ''mcp_server_url'') of
        Inl x \<Rightarrow> (Inl x, [])
      | Inr server_url \<Rightarrow>
         (case OPENAI_API_KEY e of
            None \<Rightarrow> (Inl (ValueError api_key_required), [])
          | Some key \<Rightarrow>
             if key = [] then (Inl (ValueError api_key_required), [])
             else
              (case subscript_str config ''model'' of
                 Inl x \<Rightarrow> (Inl x, [])
               | Inr model \<Rightarrow>
                  (let run_config =
                         \<lparr>model_name = model, api_key = key, tracing_disabled = True\<rparr> in
                   case subscript_int config ''mcp_timeout_seconds'' of
                     Inl x \<Rightarrow> (Inl x, [])
                   | Inr secs \<Rightarrow>
                      (let mcp_server =
                             \<lparr>server_name = ''Todo MCP Server'', url = server_url,
                              timeout = secs, cache_tools_list = True\<rparr> in
                       case mcp_aenter e mcp_server of
                         Some x \<Rightarrow> (Inl x, [McpEnter mcp_server (Some x)])
                       | None \<Rightarrow>
                          (let agent =
                                 \<lparr>agent_name = ''Todo Assistant'',
                                  instructions = get_system_prompt (now_strftime e),
                                  mcp_servers = [mcp_server]\<rparr>
                           in (Inr (agent, mcp_server, run_config),
                               [McpEnter mcp_server None])))))))"

subsection \<open>Building the model input\<close>

text \<open>
  Both entry points build the input in the same way (lines 143 to 154 and 217 to 228):
  the formatted history when a non-empty history is given, then one new user message whose
  content is the identity tag, a newline and the user's text.
\<close>

definition build_input :: "string \<Rightarrow> string \<Rightarrow> Message list option \<Rightarrow> dict list" where
  "build_input uid message conversation_history =
     (let history =
            (case conversation_history of
               None \<Rightarrow> []
             | Some ms \<Rightarrow> if ms = [] then [] else format_conversation_history ms);
          full_message = ''[User ID: '' @ uid @ '']\<newline>'' @ message;
          new_user_message = [(''role'', ''user''), (''content'', full_message)]
      in history @ [new_user_message])"

subsection \<open>\<^verbatim>\<open>run_agent\<close>\<close>

definition no_response_message :: string where
  \<open>no_response_message =
     ''I\'m sorry, I processed your request but didn\'t generate a response. '' @
     ''How else can I help?''\<close>

text \<open>
  The inner \<^verbatim>\<open>try\<close>: an exception of the run is logged and raised again; a result
  whose \<^verbatim>\<open>final_output\<close> is falsy (absent or the empty string) is replaced by the
  fixed message.
\<close>

definition answer_of :: "exn + string option \<Rightarrow> exn + string" where
  "answer_of r =
     (case r of
        Inl x \<Rightarrow> Inl x
      | Inr output \<Rightarrow>
         (case output of
            None \<Rightarrow> Inr no_response_message
          | Some out \<Rightarrow> if out = [] then Inr no_response_message else Inr out))"

text \<open>
  The turn: when \<^verbatim>\<open>create_agent\<close> raises, \<^verbatim>\<open>mcp_server\<close> is still \<^verbatim>\<open>None\<close>
  and the \<^verbatim>\<open>finally\<close> block does nothing. Otherwise the \<^verbatim>\<open>Runner\<close> is called
  once, and the \<^verbatim>\<open>finally\<close> block calls \<^verbatim>\<open>__aexit__\<close> whatever happened; an
  \<^verbatim>\<open>Exception\<close> from it is printed and dropped, anything else replaces the outcome.
\<close>

definition run_agent ::
  "settings \<Rightarrow> env \<Rightarrow> string \<Rightarrow> string \<Rightarrow> Message list option \<Rightarrow>
     (exn + string) \<times> event list" where
  "run_agent st e uid message conversation_history =
     (case create_agent st e None of
        (Inl x, tr) \<Rightarrow> (Inl x, tr)
      | (Inr (agent, mcp_server, run_config), tr) \<Rightarrow>
         (let full_input = build_input uid message conversation_history;
              call = \<lparr>call_agent = agent, call_input = full_input,
                      call_run_config = run_config, call_context = [(''user_id'', uid)]\<rparr>;
              ran = runner_run e call;
              body = answer_of (run_result ran);
              tr_run = tr @ [RunnerRun call] @ map (\<lambda>(n, a). ToolInvoked n a) (tool_calls ran)
          in case mcp_aexit e mcp_server of
               None \<Rightarrow> (body, tr_run @ [McpExit mcp_server None])
             | Some x \<Rightarrow>
                if is_Exception x
                then (body, tr_run @ [McpExit mcp_server (Some x),
                                      Print (''Error closing MCP server: '' @ exn_str x)])
                else (Inl x, tr_run @ [McpExit mcp_server (Some x)])))"

subsection \<open>\<^verbatim>\<open>run_agent_streamed\<close>\<close>

text \<open>
  How a turn of the generator ends: its body ran to the end, an exception left it, or the
  consumer stopped iterating and the generator stays suspended at a \<^verbatim>\<open>yield\<close>
  (or was never started).
\<close>

datatype stream_end = Finished | Raised exn | Abandoned

text \<open>
  The \<^verbatim>\<open>async for\<close> loop. The generator yields the delta of every event that is a raw
  response event carrying a text delta, in the order of the events; the other branches
  only log. The tool invocations of the run take place between the events. At a
  \<^verbatim>\<open>yield\<close> the generator is suspended until the consumer asks for the next chunk:
  the loop goes on only when the consumer does. The result is the chunks yielded, how the
  loop ended, and the tool invocations up to there.
\<close>

fun stream_loop ::
  "nat option \<Rightarrow> stream_item list \<Rightarrow> exn option \<Rightarrow> (string list \<times> stream_end) \<times> event list" where
  "stream_loop c [] raised =
     (([], case raised of None \<Rightarrow> Finished | Some x \<Rightarrow> Raised x), [])"
| "stream_loop c (Invoked n a # items) raised =
     (case stream_loop c items raised of
        ((chunks, ending), tr) \<Rightarrow> ((chunks, ending), ToolInvoked n a # tr))"
| "stream_loop c (Emitted ev # items) raised =
     (if event_type ev = ''raw_response_event''
      then (case event_data ev of
              ResponseTextDeltaEvent delta \<Rightarrow>
                (case c of
                   None \<Rightarrow>
                     (case stream_loop None items raised of
                        ((chunks, ending), tr) \<Rightarrow> ((delta # chunks, ending), tr))
                 | Some k \<Rightarrow>
                     if k \<le> 1 then (([delta], Abandoned), [])
                     else (case stream_loop (Some (k - 1)) items raised of
                             ((chunks, ending), tr) \<Rightarrow> ((delta # chunks, ending), tr)))
            | OtherData _ \<Rightarrow> stream_loop c items raised)
      else stream_loop c items raised)"

text \<open>
  The generator. Its body does not start before the consumer asks for the first chunk.
  The \<^verbatim>\<open>finally\<close> block runs when the body is left, at its end or by an exception,
  and drops an \<^verbatim>\<open>Exception\<close> of \<^verbatim>\<open>__aexit__\<close> silently; it has not run while the
  generator is suspended at a \<^verbatim>\<open>yield\<close>.
\<close>

definition run_agent_streamed ::
  "settings \<Rightarrow> env \<Rightarrow> string \<Rightarrow> string \<Rightarrow> Message list option \<Rightarrow>
     (string list \<times> stream_end) \<times> event list" where
  "run_agent_streamed st e uid message conversation_history =
     (if stream_consumer e = Some 0 then (([], Abandoned), [])
      else
       case create_agent st e None of
         (Inl x, tr) \<Rightarrow> (([], Raised x), tr)
       | (Inr (agent, mcp_server, run_config), tr) \<Rightarrow>
          (let full_input = build_input uid message conversation_history;
               call = \<lparr>call_agent = agent, call_input = full_input,
                       call_run_config = run_config, call_context = [(''user_id'', uid)]\<rparr>;
               result = runner_run_streamed e call
           in case stream_loop (stream_consumer e) (stream_items result) (stream_raised result) of
                ((chunks, ending), tr_loop) \<Rightarrow>
                  (let tr_run = tr @ [RunnerRunStreamed call] @ tr_loop
                   in if ending = Abandoned then ((chunks, Abandoned), tr_run)
                      else
                       case mcp_aexit e mcp_server of
                         None \<Rightarrow> ((chunks, ending), tr_run @ [McpExit mcp_server None])
                       | Some x \<Rightarrow>
                          if is_Exception x
                          then ((chunks, ending), tr_run @ [McpExit mcp_server (Some x)])
                          else ((chunks, Raised x), tr_run @ [McpExit mcp_server (Some x)]))))"


section \<open>Observations on a turn\<close>

text \<open>
  Modelled from the spec: the message sequence sent to the model (section 4.1: one system
  instruction block, then the history window, then the new user message). The repository
  hands the instructions (in the agent) and the input items to the library's
  \<^verbatim>\<open>Runner\<close> separately; the sequence puts the instructions in front as the
  system entry.
\<close>

definition model_messages :: "runner_call \<Rightarrow> dict list" where
  "model_messages call =
     [(''role'', ''system''), (''content'', instructions (call_agent call))] # call_input call"

text \<open>
  The connections that a sequence of effects leaves open: \<^verbatim>\<open>__aenter__\<close> that
  returned opens one, \<^verbatim>\<open>__aexit__\<close> that returned closes it. A call of
  \<^verbatim>\<open>__aexit__\<close> that raised has not completed the close.
\<close>

fun dangling :: "event list \<Rightarrow> MCPServerStreamableHttp list \<Rightarrow> MCPServerStreamableHttp list" where
  "dangling [] opened = opened"
| "dangling (McpEnter m None # tr) opened = dangling tr (m # opened)"
| "dangling (McpExit m None # tr) opened = dangling tr (remove1 m opened)"
| "dangling (ev # tr) opened = dangling tr opened"

text \<open>The tool invocations, the calls of the \<^verbatim>\<open>Runner\<close> and the connection attempts of a turn.\<close>

fun invoked :: "event list \<Rightarrow> (string \<times> dict) list" where
  "invoked [] = []"
| "invoked (ToolInvoked n a # tr) = (n, a) # invoked tr"
| "invoked (ev # tr) = invoked tr"

fun runner_calls :: "event list \<Rightarrow> runner_call list" where
  "runner_calls [] = []"
| "runner_calls (RunnerRun c # tr) = c # runner_calls tr"
| "runner_calls (RunnerRunStreamed c # tr) = c # runner_calls tr"
| "runner_calls (ev # tr) = runner_calls tr"

fun enter_attempts :: "event list \<Rightarrow> nat" where
  "enter_attempts [] = 0"
| "enter_attempts (McpEnter m r # tr) = Suc (enter_attempts tr)"
| "enter_attempts (ev # tr) = enter_attempts tr"

text \<open>The tool invocations and the events of a streamed run, each in order.\<close>

fun stream_tools :: "stream_item list \<Rightarrow> (string \<times> dict) list" where
  "stream_tools [] = []"
| "stream_tools (Invoked n a # items) = (n, a) # stream_tools items"
| "stream_tools (Emitted ev # items) = stream_tools items"

fun stream_events :: "stream_item list \<Rightarrow> stream_event list" where
  "stream_events [] = []"
| "stream_events (Invoked n a # items) = stream_events items"
| "stream_events (Emitted ev # items) = ev # stream_events items"

text \<open>A raw response event that carries a text delta, and its payload.\<close>

definition is_text_delta :: "stream_event \<Rightarrow> bool" where
  "is_text_delta ev =
     (event_type ev = ''raw_response_event'' \<and>
      (case event_data ev of ResponseTextDeltaEvent d \<Rightarrow> True | OtherData d \<Rightarrow> False))"

definition delta_of :: "stream_event \<Rightarrow> string" where
  "delta_of ev = (case event_data ev of ResponseTextDeltaEvent d \<Rightarrow> d | OtherData d \<Rightarrow> [])"

text \<open>
  Names for what \<^verbatim>\<open>create_agent\<close> builds when it is called without a URL, as
  \<^verbatim>\<open>run_agent\<close> and \<^verbatim>\<open>run_agent_streamed\<close> call it: the server object, the
  condition under which it returns (an API key is set and \<^verbatim>\<open>__aenter__\<close> returns), the
  one call of the \<^verbatim>\<open>Runner\<close> a turn then makes, the loop of a streamed turn over
  the items of that call, and the effects of the \<^verbatim>\<open>finally\<close> block of
  \<^verbatim>\<open>run_agent\<close>.
\<close>

definition todo_server :: "settings \<Rightarrow> MCPServerStreamableHttp" where
  "todo_server st =
     \<lparr>server_name = ''Todo MCP Server'', url = MCP_SERVER_URL st,
      timeout = MCP_TIMEOUT_SECONDS st, cache_tools_list = True\<rparr>"

definition has_api_key :: "env \<Rightarrow> bool" where
  "has_api_key e = (case OPENAI_API_KEY e of None \<Rightarrow> False | Some key \<Rightarrow> key \<noteq> [])"

definition connects :: "settings \<Rightarrow> env \<Rightarrow> bool" where
  "connects st e = (has_api_key e \<and> mcp_aenter e (todo_server st) = None)"

definition turn_call ::
  "settings \<Rightarrow> env \<Rightarrow> string \<Rightarrow> string \<Rightarrow> Message list option \<Rightarrow> runner_call" where
  "turn_call st e uid message conversation_history =
     \<lparr>call_agent =
        \<lparr>agent_name = ''Todo Assistant'', instructions = get_system_prompt (now_strftime e),
         mcp_servers = [todo_server st]\<rparr>,
      call_input = build_input uid message conversation_history,
      call_run_config =
        \<lparr>model_name = AGENT_MODEL st,
         api_key = (case OPENAI_API_KEY e of None \<Rightarrow> [] | Some key \<Rightarrow> key),
         tracing_disabled = True\<rparr>,
      call_context = [(''user_id'', uid)]\<rparr>"

definition turn_stream ::
  "settings \<Rightarrow> env \<Rightarrow> string \<Rightarrow> string \<Rightarrow> Message list option \<Rightarrow>
     (string list \<times> stream_end) \<times> event list" where
  "turn_stream st e uid message conversation_history =
     stream_loop (stream_consumer e)
       (stream_items (runner_run_streamed e (turn_call st e uid message conversation_history)))
       (stream_raised (runner_run_streamed e (turn_call st e uid message conversation_history)))"

definition closing :: "env \<Rightarrow> MCPServerStreamableHttp \<Rightarrow> event list" where
  "closing e m =
     (case mcp_aexit e m of
        None \<Rightarrow> [McpExit m None]
      | Some x \<Rightarrow>
         if is_Exception x
         then [McpExit m (Some x), Print (''Error closing MCP server: '' @ exn_str x)]
         else [McpExit m (Some x)])"

section \<open>Sample turns\<close>

text \<open>The defaults of config.py, a small table of messages, and environments.\<close>

definition default_settings :: settings where
  "default_settings =
     \<lparr>AGENT_MODEL = ''gpt-4o'', AGENT_TEMPERATURE = 7 / 10, AGENT_MAX_TOKENS = 1000,
      MAX_CONVERSATION_HISTORY = 50, MCP_SERVER_URL = ''http://localhost:8000/api/mcp'',
      MCP_TIMEOUT_SECONDS = 30\<rparr>"

definition sample_message :: "uuid \<Rightarrow> MessageRole \<Rightarrow> string \<Rightarrow> datetime \<Rightarrow> Message" where
  "sample_message cid r txt t =
     \<lparr>msg_id = None, conversation_id = cid, user_id = ''alice'', role = r, content = txt,
      created_at = t\<rparr>"

text \<open>
  A database that returns rows with equal \<open>created_at\<close> in storage order (a stable
  sort, newest first).
\<close>

definition stable_desc :: "Message list \<Rightarrow> Message list" where
  "stable_desc rows = sort_key (\<lambda>m. - created_at m) rows"

definition sample_session :: session where
  "sample_session =
     \<lparr>table_rows =
        [sample_message 1 assistant ''Added.'' 20,
         sample_message 2 user ''Hello'' 15,
         sample_message 1 user ''Buy milk'' 10,
         sample_message 1 user ''Thanks'' 30,
         sample_message 1 assistant ''Welcome'' 30],
      returns_desc = stable_desc\<rparr>"

text \<open>
  A turn in which everything works: the run invokes a tool and then streams its answer in
  two text deltas; its final output is that answer. The consumer iterates to the end.
\<close>

definition sample_items :: "stream_item list" where
  "sample_items =
     [Invoked ''add_task'' [(''user_id'', ''alice''), (''title'', ''Buy milk'')],
      Emitted \<lparr>event_type = ''tool_call_event'', event_data = OtherData ''add_task''\<rparr>,
      Emitted \<lparr>event_type = ''raw_response_event'', event_data = ResponseTextDeltaEvent ''Task ''\<rparr>,
      Emitted \<lparr>event_type = ''raw_response_event'', event_data = OtherData ''response.created''\<rparr>,
      Emitted \<lparr>event_type = ''raw_response_event'', event_data = ResponseTextDeltaEvent ''added.''\<rparr>]"

definition sample_env :: env where
  "sample_env =
     \<lparr>OPENAI_API_KEY = Some ''sk-test'', now_strftime = ''Tuesday, November 03, 2026'',
      mcp_aenter = (\<lambda>m. None), mcp_aexit = (\<lambda>m. None),
      runner_run = (\<lambda>c. \<lparr>tool_calls =
                             [(''add_task'', [(''user_id'', ''alice''), (''title'', ''Buy milk'')])],
                           run_result = Inr (Some ''Task added.'')\<rparr>),
      runner_run_streamed = (\<lambda>c. \<lparr>stream_items = sample_items, stream_raised = None\<rparr>),
      stream_consumer = None\<rparr>"

text \<open>The model answers with no text at all, in both entry points.\<close>

definition silent_env :: env where
  "silent_env =
     sample_env\<lparr>runner_run := (\<lambda>c. \<lparr>tool_calls = [], run_result = Inr (Some [])\<rparr>),
                runner_run_streamed := (\<lambda>c. \<lparr>stream_items = [], stream_raised = None\<rparr>)\<rparr>"

text \<open>The run invokes the same tool with the same arguments twice.\<close>

definition repeating_env :: env where
  "repeating_env =
     sample_env\<lparr>runner_run := (\<lambda>c. \<lparr>tool_calls =
                    [(''add_task'', [(''user_id'', ''alice''), (''title'', ''Buy milk'')]),
                     (''add_task'', [(''user_id'', ''alice''), (''title'', ''Buy milk'')])],
                  run_result = Inr (Some ''Task added.'')\<rparr>)\<rparr>"

text \<open>The run invokes a tool with a user id other than the caller's.\<close>

definition echoing_env :: env where
  "echoing_env =
     sample_env\<lparr>runner_run := (\<lambda>c. \<lparr>tool_calls =
                    [(''list_tasks'', [(''user_id'', ''mallory'')])],
                  run_result = Inr (Some ''Here are your tasks.'')\<rparr>)\<rparr>"

text \<open>The run ends with the library's turn-limit exception.\<close>

definition max_turns_env :: env where
  "max_turns_env =
     sample_env\<lparr>runner_run := (\<lambda>c. \<lparr>tool_calls = [],
                  run_result = Inl (Exception ''Max turns (10) exceeded'')\<rparr>)\<rparr>"

text \<open>The MCP server cannot be reached.\<close>

definition unreachable_env :: env where
  "unreachable_env =
     sample_env\<lparr>mcp_aenter := (\<lambda>m. Some (Exception ''All connection attempts failed''))\<rparr>"

text \<open>The consumer of the streamed turn takes one chunk and stops iterating.\<close>

definition abandoning_env :: env where
  "abandoning_env = sample_env\<lparr>stream_consumer := Some 1\<rparr>"

text \<open>Closing the MCP connection fails.\<close>

definition failing_close_env :: env where
  "failing_close_env =
     sample_env\<lparr>mcp_aexit := (\<lambda>m. Some (Exception ''Connection closed''))\<rparr>"

section \<open>The history window\<close>

lemma lower_role_value: "lower (role_value r) = role_value r"
  by (cases r) (simp_all add: lower_def lower_char_def)

lemma format_conversation_history_map:
  "format_conversation_history ms =
     map (\<lambda>m. [(''role'', role_value (role m)), (''content'', content m)]) ms"
  by (induction ms) (simp_all add: lower_role_value)

lemma sorted_negated_keys:
  fixes f :: "'a \<Rightarrow> int"
  shows "sorted (map (\<lambda>m. - f m) rows) \<Longrightarrow> sorted (rev (map f rows))"
  by (simp add: sorted_wrt_rev sorted_wrt_map sorted_map flip: rev_map)

lemma stable_desc_answers: "answers_order_by_desc rows (stable_desc rows)"
  unfolding answers_order_by_desc_def stable_desc_def
  by (simp add: sorted_negated_keys)

lemma window_sorted:
  assumes "sorted (map f (rev rows))"
  shows "sorted (map f (rev (take n rows)))"
proof -
  have "rev rows = rev (drop n rows) @ rev (take n rows)"
    by (metis append_take_drop_id rev_append)
  with assms show ?thesis
    by (simp add: sorted_append)
qed

lemma window_newest:
  assumes "sorted (map f (rev rows))"
    and "x \<in> set (drop n rows)" and "y \<in> set (take n rows)"
  shows "f x \<le> f y"
proof -
  have "rev rows = rev (drop n rows) @ rev (take n rows)"
    by (metis append_take_drop_id rev_append)
  with assms show ?thesis
    by (auto simp add: sorted_append)
qed

lemma window_rest:
  "mset rows - mset (rev (take n rows)) = mset (drop n rows)"
proof -
  have "mset rows = mset (take n rows) + mset (drop n rows)"
    by (metis append_take_drop_id mset_append)
  then show ?thesis by simp
qed

lemma window_of_answer:
  assumes perm: "mset rows = mset stored"
    and desc: "sorted (map f (rev rows))"
    and own: "\<forall>m \<in> set stored. g m = c"
  shows "sorted (map f (rev (take n rows))) \<and>
         (\<forall>m \<in> set (rev (take n rows)). g m = c) \<and>
         mset (rev (take n rows)) \<subseteq># mset stored \<and>
         length (rev (take n rows)) = min n (length stored) \<and>
         (\<forall>old \<in># mset stored - mset (rev (take n rows)).
            \<forall>m \<in> set (rev (take n rows)). f old \<le> f m)"
proof (intro conjI)
  show "sorted (map f (rev (take n rows)))"
    using desc by (rule window_sorted)
  have sub: "set (take n rows) \<subseteq> set stored"
    using perm by (metis mset_eq_setD set_take_subset)
  with own show "\<forall>m \<in> set (rev (take n rows)). g m = c"
    by auto
  have "mset rows = mset (take n rows) + mset (drop n rows)"
    by (metis append_take_drop_id mset_append)
  then have "mset (take n rows) \<subseteq># mset rows"
    by simp
  with perm show "mset (rev (take n rows)) \<subseteq># mset stored"
    by simp
  have "length rows = length stored"
    using perm by (rule mset_eq_length)
  then show "length (rev (take n rows)) = min n (length stored)"
    by (simp add: min.commute)
  have rest: "mset stored - mset (rev (take n rows)) = mset (drop n rows)"
    using window_rest [of rows n] perm by simp
  show "\<forall>old \<in># mset stored - mset (rev (take n rows)).
          \<forall>m \<in> set (rev (take n rows)). f old \<le> f m"
    unfolding rest using window_newest [OF desc] by auto
qed

lemma sample_window:
  "load_conversation_history 1 sample_session 2 =
     [sample_message 1 assistant ''Welcome'' 30, sample_message 1 user ''Thanks'' 30]"
  by (simp add: load_conversation_history_def stable_desc_def
      where_conversation_def sample_session_def sample_message_def)

text \<open>
  Claim C5, as stated, fails where it asks for strictly increasing creation times: two
  messages of one conversation with different contents and the same creation time are
  both returned, with equal times next to each other.
\<close>

theorem equal_creation_times_returned:
  "map content (load_conversation_history 1 sample_session 2) = [''Welcome'', ''Thanks''] \<and>
   map created_at (load_conversation_history 1 sample_session 2) = [30, 30] \<and>
   \<not> sorted_wrt (<) (map created_at (load_conversation_history 1 sample_session 2))"
  unfolding sample_window by (simp add: sample_message_def)

text \<open>
  Claim C5, amended. Whenever the database answers the query as \<^verbatim>\<open>ORDER BY\<close>
  requires, the history loader returns messages of the requested conversation, oldest
  first: their creation times never decrease (equal times may follow each other, in the
  order the database chose). They are the most recent ones: the result has \<open>limit\<close>
  of the conversation's stored messages, or all of them when there are fewer, and every
  stored message of the conversation that is left out is no newer than any message
  returned.
\<close>

theorem load_conversation_history_chronological:
  assumes "answers_order_by_desc
             (filter (\<lambda>m. conversation_id m = cid) (table_rows sess))
             (returns_desc sess (filter (\<lambda>m. conversation_id m = cid) (table_rows sess)))"
  shows "sorted (map created_at (load_conversation_history cid sess limit)) \<and>
   (\<forall>m \<in> set (load_conversation_history cid sess limit). conversation_id m = cid) \<and>
   mset (load_conversation_history cid sess limit)
     \<subseteq># mset (filter (\<lambda>m. conversation_id m = cid) (table_rows sess)) \<and>
   length (load_conversation_history cid sess limit)
     = min limit (length (filter (\<lambda>m. conversation_id m = cid) (table_rows sess))) \<and>
   (\<forall>old \<in># mset (filter (\<lambda>m. conversation_id m = cid) (table_rows sess))
               - mset (load_conversation_history cid sess limit).
      \<forall>m \<in> set (load_conversation_history cid sess limit). created_at old \<le> created_at m)"
proof -
  define stored where "stored = filter (\<lambda>m. conversation_id m = cid) (table_rows sess)"
  define rows where "rows = returns_desc sess stored"
  have res: "load_conversation_history cid sess limit = rev (take limit rows)"
    by (simp add: load_conversation_history_def where_conversation_def rows_def stored_def)
  have desc: "sorted (map created_at (rev rows))"
    using assms by (simp add: answers_order_by_desc_def rev_map rows_def stored_def)
  have perm: "mset rows = mset stored"
    using assms by (simp add: answers_order_by_desc_def rows_def stored_def)
  have own: "\<forall>m \<in> set stored. conversation_id m = cid"
    by (simp add: stored_def)
  from perm desc own
  have "sorted (map created_at (rev (take limit rows))) \<and>
        (\<forall>m \<in> set (rev (take limit rows)). conversation_id m = cid) \<and>
        mset (rev (take limit rows)) \<subseteq># mset stored \<and>
        length (rev (take limit rows)) = min limit (length stored) \<and>
        (\<forall>old \<in># mset stored - mset (rev (take limit rows)).
           \<forall>m \<in> set (rev (take limit rows)). created_at old \<le> created_at m)"
    by (rule window_of_answer)
  then show ?thesis
    unfolding res stored_def .
qed

theorem load_conversation_history_chronological_witness:
  "load_conversation_history 1 sample_session 2 =
     [sample_message 1 assistant ''Welcome'' 30, sample_message 1 user ''Thanks'' 30] \<and>
   sorted (map created_at (load_conversation_history 1 sample_session 2)) \<and>
   length (load_conversation_history 1 sample_session 2) = 2 \<and>
   conversation_id (sample_message 1 user ''Thanks'' 30) = 1 \<and>
   created_at (sample_message 1 assistant ''Added.'' 20)
     \<le> created_at (sample_message 1 user ''Thanks'' 30)"
proof -
  have stored: "filter (\<lambda>m. conversation_id m = 1) (table_rows sample_session) =
     [sample_message 1 assistant ''Added.'' 20, sample_message 1 user ''Buy milk'' 10,
      sample_message 1 user ''Thanks'' 30, sample_message 1 assistant ''Welcome'' 30]"
    by (simp add: sample_session_def sample_message_def)
  have answered: "answers_order_by_desc
      (filter (\<lambda>m. conversation_id m = 1) (table_rows sample_session))
      (returns_desc sample_session
         (filter (\<lambda>m. conversation_id m = 1) (table_rows sample_session)))"
    using stable_desc_answers by (simp add: sample_session_def)
  have left_out: "sample_message 1 assistant ''Added.'' 20
     \<in># mset (filter (\<lambda>m. conversation_id m = 1) (table_rows sample_session))
          - mset (load_conversation_history 1 sample_session 2)"
    unfolding stored sample_window by simp
  have returned: "sample_message 1 user ''Thanks'' 30
     \<in> set (load_conversation_history 1 sample_session 2)"
    unfolding sample_window by simp
  from load_conversation_history_chronological [OF answered, of 2] left_out returned
  have "sorted (map created_at (load_conversation_history 1 sample_session 2)) \<and>
        length (load_conversation_history 1 sample_session 2)
          = min 2 (length (filter (\<lambda>m. conversation_id m = 1) (table_rows sample_session))) \<and>
        conversation_id (sample_message 1 user ''Thanks'' 30) = 1 \<and>
        created_at (sample_message 1 assistant ''Added.'' 20)
          \<le> created_at (sample_message 1 user ''Thanks'' 30)"
    by blast
  with sample_window stored show ?thesis by simp
qed

section \<open>The shape of a turn\<close>

lemma create_agent_None:
  "create_agent st e None =
     (if \<not> has_api_key e then (Inl (ValueError api_key_required), [])
      else case mcp_aenter e (todo_server st) of
             Some x \<Rightarrow> (Inl x, [McpEnter (todo_server st) (Some x)])
           | None \<Rightarrow>
              (Inr (call_agent (turn_call st e uid message h), todo_server st,
                    call_run_config (turn_call st e uid message h)),
               [McpEnter (todo_server st) None]))"
  by (simp add: create_agent_def get_agent_config_def subscript_str_def subscript_int_def
      config_str_def config_int_def has_api_key_def todo_server_def turn_call_def Let_def
      split: option.splits)

lemma run_agent_unfold:
  "run_agent st e uid message h =
     (if \<not> has_api_key e then (Inl (ValueError api_key_required), [])
      else case mcp_aenter e (todo_server st) of
             Some x \<Rightarrow> (Inl x, [McpEnter (todo_server st) (Some x)])
           | None \<Rightarrow>
              (if mcp_aexit e (todo_server st) = Some CancelledError then Inl CancelledError
               else answer_of (run_result (runner_run e (turn_call st e uid message h))),
               McpEnter (todo_server st) None # RunnerRun (turn_call st e uid message h)
                 # map (\<lambda>(n, a). ToolInvoked n a)
                     (tool_calls (runner_run e (turn_call st e uid message h)))
                 @ closing e (todo_server st)))"
proof -
  have call: "\<lparr>call_agent = call_agent (turn_call st e uid message h),
               call_input = build_input uid message h,
               call_run_config = call_run_config (turn_call st e uid message h),
               call_context = [(''user_id'', uid)]\<rparr> = turn_call st e uid message h"
    by (simp add: turn_call_def)
  have exc: "\<And>x. \<not> is_Exception x \<longleftrightarrow> x = CancelledError"
    by (case_tac x) simp_all
  show ?thesis
    unfolding run_agent_def create_agent_None [of st e uid message h]
    by (auto simp add: call closing_def Let_def exc split: option.splits)
qed

lemma run_agent_streamed_unfold:
  "run_agent_streamed st e uid message h =
     (if stream_consumer e = Some 0 then (([], Abandoned), [])
      else if \<not> has_api_key e then (([], Raised (ValueError api_key_required)), [])
      else case mcp_aenter e (todo_server st) of
             Some x \<Rightarrow> (([], Raised x), [McpEnter (todo_server st) (Some x)])
           | None \<Rightarrow>
              if snd (fst (turn_stream st e uid message h)) = Abandoned
              then ((fst (fst (turn_stream st e uid message h)), Abandoned),
                    McpEnter (todo_server st) None
                      # RunnerRunStreamed (turn_call st e uid message h)
                      # snd (turn_stream st e uid message h))
              else ((fst (fst (turn_stream st e uid message h)),
                     if mcp_aexit e (todo_server st) = Some CancelledError
                     then Raised CancelledError
                     else snd (fst (turn_stream st e uid message h))),
                    McpEnter (todo_server st) None
                      # RunnerRunStreamed (turn_call st e uid message h)
                      # snd (turn_stream st e uid message h)
                      @ [McpExit (todo_server st) (mcp_aexit e (todo_server st))]))"
proof -
  have call: "\<lparr>call_agent = call_agent (turn_call st e uid message h),
               call_input = build_input uid message h,
               call_run_config = call_run_config (turn_call st e uid message h),
               call_context = [(''user_id'', uid)]\<rparr> = turn_call st e uid message h"
    by (simp add: turn_call_def)
  have exc: "\<And>x. \<not> is_Exception x \<longleftrightarrow> x = CancelledError"
    by (case_tac x) simp_all
  show ?thesis
    unfolding run_agent_streamed_def create_agent_None [of st e uid message h]
    by (auto simp add: call Let_def exc turn_stream_def split: option.splits prod.splits)
qed

lemma stream_loop_effects:
  "\<forall>ev \<in> set (snd (stream_loop c items r)). \<exists>n a. ev = ToolInvoked n a"
proof (induction items arbitrary: c)
  case Nil
  show ?case by simp
next
  case (Cons item items)
  show ?case
  proof (cases item)
    case (Emitted ev)
    with Cons.IH [of c] Cons.IH [of None] Cons.IH [of "Some (the c - 1)"] show ?thesis
      by (auto split: prod.splits event_data.splits option.splits if_splits)
  next
    case (Invoked n a)
    with Cons.IH [of c] show ?thesis
      by (auto split: prod.splits)
  qed
qed

lemma invoked_stream_loop_prefix:
  "prefix (invoked (snd (stream_loop c items r))) (stream_tools items)"
proof (induction items arbitrary: c)
  case Nil
  show ?case by simp
next
  case (Cons item items)
  show ?case
  proof (cases item)
    case (Emitted ev)
    with Cons.IH [of c] Cons.IH [of None] Cons.IH [of "Some (the c - 1)"] show ?thesis
      by (auto split: prod.splits event_data.splits option.splits if_splits)
  next
    case (Invoked n a)
    with Cons.IH [of c] show ?thesis
      by (auto split: prod.splits)
  qed
qed

lemma invoked_stream_loop_all:
  "snd (fst (stream_loop c items r)) \<noteq> Abandoned \<Longrightarrow>
   invoked (snd (stream_loop c items r)) = stream_tools items"
proof (induction items arbitrary: c)
  case Nil
  show ?case by simp
next
  case (Cons item items)
  show ?case
  proof (cases item)
    case (Emitted ev)
    with Cons.prems Cons.IH [of c] Cons.IH [of None] Cons.IH [of "Some (the c - 1)"]
    show ?thesis
      by (auto split: prod.splits event_data.splits option.splits if_splits)
  next
    case (Invoked n a)
    with Cons.prems Cons.IH [of c] show ?thesis
      by (auto split: prod.splits)
  qed
qed

lemma chunks_stream_loop:
  "fst (fst (stream_loop None items r)) =
     map delta_of (filter is_text_delta (stream_events items))"
proof (induction items)
  case Nil
  show ?case by simp
next
  case (Cons item items)
  show ?case
  proof (cases item)
    case (Invoked n a)
    with Cons show ?thesis by (auto split: prod.splits)
  next
    case (Emitted ev)
    show ?thesis
    proof (cases "is_text_delta ev")
      case True
      then obtain d where "event_type ev = ''raw_response_event''"
        and "event_data ev = ResponseTextDeltaEvent d"
        by (auto simp add: is_text_delta_def split: event_data.splits)
      with Cons Emitted True show ?thesis
        by (auto simp add: delta_of_def split: prod.splits)
    next
      case False
      then have "event_type ev \<noteq> ''raw_response_event'' \<or> (\<exists>d. event_data ev = OtherData d)"
        by (auto simp add: is_text_delta_def split: event_data.splits)
      with Cons Emitted False show ?thesis
        by (auto split: prod.splits)
    qed
  qed
qed

lemma only_tools:
  assumes "\<forall>ev \<in> set tr. \<exists>n a. ev = ToolInvoked n a"
  shows "dangling (tr @ rest) opened = dangling rest opened"
    and "runner_calls (tr @ rest) = runner_calls rest"
    and "invoked (tr @ rest) = invoked tr @ invoked rest"
    and "McpEnter m x \<notin> set tr" and "McpExit m x \<notin> set tr"
  using assms by (induction tr) auto

lemma dangling_tools [simp]:
  "dangling (map (\<lambda>(n, a). ToolInvoked n a) cs @ tr) opened = dangling tr opened"
  by (induction cs) (auto)

lemma invoked_tools [simp]:
  "invoked (map (\<lambda>(n, a). ToolInvoked n a) cs @ tr) = cs @ invoked tr"
  by (induction cs) (auto)

lemma runner_calls_tools [simp]:
  "runner_calls (map (\<lambda>(n, a). ToolInvoked n a) cs @ tr) = runner_calls tr"
  by (induction cs) (auto)

lemma enter_attempts_tools [simp]:
  "enter_attempts (map (\<lambda>(n, a). ToolInvoked n a) cs @ tr) = enter_attempts tr"
  by (induction cs) (auto)

lemma closing_simps [simp]:
  "invoked (closing e m) = []"
  "runner_calls (closing e m) = []"
  "enter_attempts (closing e m) = 0"
  by (simp_all add: closing_def split: option.splits)


lemma turn_stream_effects:
  "\<forall>ev \<in> set (snd (turn_stream st e uid message h)). \<exists>n a. ev = ToolInvoked n a"
  unfolding turn_stream_def by (rule stream_loop_effects)

lemma dangling_turn_stream [simp]:
  "dangling (snd (turn_stream st e uid message h) @ tr) opened = dangling tr opened"
  using turn_stream_effects by (rule only_tools)

lemma runner_calls_turn_stream [simp]:
  "runner_calls (snd (turn_stream st e uid message h) @ tr) = runner_calls tr"
  using turn_stream_effects by (rule only_tools)

lemma invoked_turn_stream [simp]:
  "invoked (snd (turn_stream st e uid message h) @ tr)
     = invoked (snd (turn_stream st e uid message h)) @ invoked tr"
  using turn_stream_effects by (rule only_tools)

lemma connection_events_turn_stream [simp]:
  "McpEnter m r \<notin> set (snd (turn_stream st e uid message h))"
  "McpExit m r \<notin> set (snd (turn_stream st e uid message h))"
  using turn_stream_effects [of st e uid message h] by (rule only_tools)+

lemma runner_calls_run_agent:
  "runner_calls (snd (run_agent st e uid message h)) =
     (if connects st e then [turn_call st e uid message h] else [])"
  by (simp add: run_agent_unfold connects_def split: option.splits)

lemma runner_calls_run_agent_streamed:
  "runner_calls (snd (run_agent_streamed st e uid message h)) =
     (if connects st e \<and> stream_consumer e \<noteq> Some 0 then [turn_call st e uid message h]
      else [])"
  using runner_calls_turn_stream [of st e uid message h "[]"]
  by (simp add: run_agent_streamed_unfold connects_def split: option.splits)

lemma invoked_run_agent_streamed:
  "invoked (snd (run_agent_streamed st e uid message h)) =
     (if connects st e \<and> stream_consumer e \<noteq> Some 0
      then invoked (snd (turn_stream st e uid message h)) else [])"
  by (simp add: run_agent_streamed_unfold connects_def split: option.splits)

lemma invoked_run_agent:
  "invoked (snd (run_agent st e uid message h)) =
     (if connects st e then tool_calls (runner_run e (turn_call st e uid message h)) else [])"
  by (simp add: run_agent_unfold connects_def split: option.splits)

lemma enter_attempts_run_agent:
  "enter_attempts (snd (run_agent st e uid message h)) = (if has_api_key e then 1 else 0)"
  by (simp add: run_agent_unfold split: option.splits)

lemma fst_run_agent:
  "fst (run_agent st e uid message h) =
     (if \<not> has_api_key e then Inl (ValueError api_key_required)
      else case mcp_aenter e (todo_server st) of
             Some x \<Rightarrow> Inl x
           | None \<Rightarrow>
              if mcp_aexit e (todo_server st) = Some CancelledError then Inl CancelledError
              else answer_of (run_result (runner_run e (turn_call st e uid message h))))"
  by (simp add: run_agent_unfold split: option.splits)

lemma no_response_message_nonempty: "no_response_message \<noteq> []"
  by (simp add: no_response_message_def)

lemma answer_of_nonempty: "answer_of r = Inr a \<Longrightarrow> a \<noteq> []"
  by (auto simp add: answer_of_def no_response_message_nonempty split: sum.splits option.splits if_splits)

lemma sample_connects [simp]:
  "connects default_settings sample_env" "connects default_settings silent_env"
  "connects default_settings repeating_env" "connects default_settings echoing_env"
  "connects default_settings max_turns_env" "\<not> connects default_settings unreachable_env"
  "has_api_key unreachable_env"
  "connects default_settings abandoning_env" "connects default_settings failing_close_env"
  by (simp_all add: connects_def has_api_key_def sample_env_def silent_env_def repeating_env_def
      echoing_env_def max_turns_env_def unreachable_env_def abandoning_env_def
      failing_close_env_def)

section \<open>The answer is never empty\<close>

text \<open>
  Claim C10. Whenever \<^verbatim>\<open>run_agent\<close> returns an answer, the answer is not the empty
  string: when the run's final output is absent or empty (and the turn is not cancelled
  while the connection is closed), the answer is the fixed apology, which is not empty.
\<close>

theorem run_agent_never_empty:
  "(\<forall>answer. fst (run_agent st e uid message h) = Inr answer \<longrightarrow> answer \<noteq> []) \<and>
   (connects st e \<and> mcp_aexit e (todo_server st) \<noteq> Some CancelledError \<and>
    (run_result (runner_run e (turn_call st e uid message h)) = Inr None \<or>
     run_result (runner_run e (turn_call st e uid message h)) = Inr (Some []))
    \<longrightarrow> fst (run_agent st e uid message h) = Inr no_response_message) \<and>
   no_response_message \<noteq> []"
proof (intro conjI allI impI)
  fix answer assume "fst (run_agent st e uid message h) = Inr answer"
  then show "answer \<noteq> []"
    by (auto simp add: fst_run_agent dest: answer_of_nonempty split: if_splits option.splits)
next
  assume "connects st e \<and> mcp_aexit e (todo_server st) \<noteq> Some CancelledError \<and>
    (run_result (runner_run e (turn_call st e uid message h)) = Inr None \<or>
     run_result (runner_run e (turn_call st e uid message h)) = Inr (Some []))"
  then show "fst (run_agent st e uid message h) = Inr no_response_message"
    by (auto simp add: fst_run_agent connects_def answer_of_def)
next
  show "no_response_message \<noteq> []" by (rule no_response_message_nonempty)
qed

theorem run_agent_never_empty_witness:
  "fst (run_agent default_settings silent_env ''alice'' ''Hello'' None) = Inr no_response_message \<and>
   no_response_message \<noteq> []"
proof -
  have c: "connects default_settings silent_env" by simp
  have x: "mcp_aexit silent_env (todo_server default_settings) \<noteq> Some CancelledError"
    by (simp add: silent_env_def sample_env_def)
  have r: "run_result (runner_run silent_env
             (turn_call default_settings silent_env ''alice'' ''Hello'' None)) = Inr (Some [])"
    by (simp add: silent_env_def)
  from c x r run_agent_never_empty [of default_settings silent_env "''alice''" "''Hello''" None]
  show ?thesis by blast
qed

section \<open>The MCP connection is released\<close>




section \<open>The model input\<close>

lemma length_load_conversation_history:
  "length (load_conversation_history cid sess limit) \<le> limit"
  by (simp add: load_conversation_history_def)

lemma build_input_eq:
  "build_input uid message h =
     map (\<lambda>m. [(''role'', role_value (role m)), (''content'', content m)])
         (case h of None \<Rightarrow> [] | Some ms \<Rightarrow> ms)
       @ [[(''role'', ''user''), (''content'', ''[User ID: '' @ uid @ '']\<newline>'' @ message)]]"
  by (simp add: build_input_def format_conversation_history_map split: option.splits)

lemma length_build_input:
  "length (build_input uid message (Some ms)) = length ms + 1"
  by (simp add: build_input_eq)

lemma sublist_today: "sublist today (get_system_prompt today)"
  unfolding get_system_prompt_def by (rule sublist_appendI)

lemma sublist_single_execution_rule: "sublist single_execution_rule (get_system_prompt today)"
proof -
  have "get_system_prompt today =
      (prompt_identity @ today @ prompt_guidelines) @ single_execution_rule @
      (prompt_response_rules @ security_rule @ prompt_reminder @ today @ prompt_end)"
    by (simp add: get_system_prompt_def)
  then show ?thesis by (simp only: sublist_appendI)
qed

lemma sublist_security_rule: "sublist security_rule (get_system_prompt today)"
proof -
  have "get_system_prompt today =
      (prompt_identity @ today @ prompt_guidelines @ single_execution_rule @
       prompt_response_rules) @ security_rule @ (prompt_reminder @ today @ prompt_end)"
    by (simp add: get_system_prompt_def)
  then show ?thesis by (simp only: sublist_appendI)
qed

lemma turn_call_simps [simp]:
  "call_input (turn_call st e uid message h) = build_input uid message h"
  "call_context (turn_call st e uid message h) = [(''user_id'', uid)]"
  "instructions (call_agent (turn_call st e uid message h)) = get_system_prompt (now_strftime e)"
  by (simp_all add: turn_call_def)

text \<open>
  Claim C4. For every table of messages and every window size \<open>W\<close>, the history
  loader returns at most \<open>W\<close> messages, however many the conversation has in storage.
  A turn that is given this history passes at most \<open>W + 1\<close> input items to the
  \<^verbatim>\<open>Runner\<close> (the window and the new user message), so that the message sequence
  of the model (system instruction block, window, new user message) has at most
  \<open>W + 2\<close> entries, in the streamed entry point as well.
\<close>

theorem history_window_bounded:
  "length (load_conversation_history cid sess W) \<le> W \<and>
   length (build_input uid message (Some (load_conversation_history cid sess W))) \<le> W + 1 \<and>
   (\<forall>call \<in> set (runner_calls (snd (run_agent st e uid message
                       (Some (load_conversation_history cid sess W)))))
              \<union> set (runner_calls (snd (run_agent_streamed st e uid message
                       (Some (load_conversation_history cid sess W))))).
      length (model_messages call) \<le> W + 2)"
proof -
  have 1: "length (load_conversation_history cid sess W) \<le> W"
    by (rule length_load_conversation_history)
  then have 2: "length (build_input uid message (Some (load_conversation_history cid sess W)))
                  \<le> W + 1"
    by (simp add: length_build_input)
  then have "length (model_messages (turn_call st e uid message
               (Some (load_conversation_history cid sess W)))) \<le> W + 2"
    by (simp add: model_messages_def)
  then have 3: "\<forall>call \<in> set (runner_calls (snd (run_agent st e uid message
                       (Some (load_conversation_history cid sess W)))))
              \<union> set (runner_calls (snd (run_agent_streamed st e uid message
                       (Some (load_conversation_history cid sess W))))).
      length (model_messages call) \<le> W + 2"
    by (auto simp add: runner_calls_run_agent runner_calls_run_agent_streamed)
  from 1 2 3 show ?thesis by blast
qed

theorem history_window_bounded_witness:
  "length (where_conversation 1 (table_rows sample_session)) = 4 \<and>
   length (load_conversation_history 1 sample_session 2) \<le> 2 \<and>
   length (model_messages (turn_call default_settings sample_env ''alice'' ''Again''
             (Some (load_conversation_history 1 sample_session 2)))) \<le> 2 + 2"
proof -
  have stored: "length (where_conversation 1 (table_rows sample_session)) = 4"
    by (simp add: where_conversation_def sample_session_def sample_message_def)
  have called: "turn_call default_settings sample_env ''alice'' ''Again''
                  (Some (load_conversation_history 1 sample_session 2))
      \<in> set (runner_calls (snd (run_agent default_settings sample_env ''alice'' ''Again''
                  (Some (load_conversation_history 1 sample_session 2)))))"
    by (simp add: runner_calls_run_agent)
  from stored called
    history_window_bounded [of 1 sample_session 2 "''alice''" "''Again''" default_settings sample_env]
  show ?thesis by blast
qed

text \<open>
  Claim C6. For every user id, message text and history, the input that a turn builds is
  the history in its given order, each message with its role and its content, followed
  by exactly one new user message whose content is the identity tag with the user id,
  a newline and the message text. This is the input of every call of the \<^verbatim>\<open>Runner\<close>,
  streamed or not, and the agent of that call carries the system prompt computed from the
  clock reading of that very turn, which contains the date. The stored messages are only
  read: the builder returns a new list.
\<close>

theorem prompt_builder_input:
  "build_input uid message h =
     map (\<lambda>m. [(''role'', role_value (role m)), (''content'', content m)])
         (case h of None \<Rightarrow> [] | Some ms \<Rightarrow> ms)
       @ [[(''role'', ''user''), (''content'', ''[User ID: '' @ uid @ '']\<newline>'' @ message)]] \<and>
   (\<forall>call \<in> set (runner_calls (snd (run_agent st e uid message h)))
              \<union> set (runner_calls (snd (run_agent_streamed st e uid message h))).
      call_input call = build_input uid message h \<and>
      instructions (call_agent call) = get_system_prompt (now_strftime e)) \<and>
   sublist (now_strftime e) (get_system_prompt (now_strftime e))"
proof (intro conjI ballI)
  show "build_input uid message h =
     map (\<lambda>m. [(''role'', role_value (role m)), (''content'', content m)])
         (case h of None \<Rightarrow> [] | Some ms \<Rightarrow> ms)
       @ [[(''role'', ''user''), (''content'', ''[User ID: '' @ uid @ '']\<newline>'' @ message)]]"
    by (rule build_input_eq)
next
  fix call
  assume "call \<in> set (runner_calls (snd (run_agent st e uid message h)))
              \<union> set (runner_calls (snd (run_agent_streamed st e uid message h)))"
  then have call: "call = turn_call st e uid message h"
    by (auto simp add: runner_calls_run_agent runner_calls_run_agent_streamed split: if_splits)
  show "call_input call = build_input uid message h"
    unfolding call by simp
  show "instructions (call_agent call) = get_system_prompt (now_strftime e)"
    unfolding call by simp
next
  show "sublist (now_strftime e) (get_system_prompt (now_strftime e))"
    by (rule sublist_today)
qed

theorem prompt_builder_input_witness:
  "call_input (turn_call default_settings sample_env ''alice'' ''Again''
                 (Some (load_conversation_history 1 sample_session 2))) =
     [[(''role'', ''assistant''), (''content'', ''Welcome'')],
      [(''role'', ''user''), (''content'', ''Thanks'')],
      [(''role'', ''user''), (''content'', ''[User ID: alice]\<newline>Again'')]] \<and>
   instructions (call_agent (turn_call default_settings sample_env ''alice'' ''Again''
                 (Some (load_conversation_history 1 sample_session 2))))
     = get_system_prompt ''Tuesday, November 03, 2026'' \<and>
   sublist ''Tuesday, November 03, 2026'' (get_system_prompt ''Tuesday, November 03, 2026'')"
proof -
  have loaded: "load_conversation_history 1 sample_session 2 =
     [sample_message 1 assistant ''Welcome'' 30, sample_message 1 user ''Thanks'' 30]"
    by (rule sample_window)
  have called: "turn_call default_settings sample_env ''alice'' ''Again''
                  (Some (load_conversation_history 1 sample_session 2))
      \<in> set (runner_calls (snd (run_agent default_settings sample_env ''alice'' ''Again''
                  (Some (load_conversation_history 1 sample_session 2)))))"
    by (simp add: runner_calls_run_agent)
  have clock: "now_strftime sample_env = ''Tuesday, November 03, 2026''"
    by (simp add: sample_env_def)
  from called
    prompt_builder_input [of "''alice''" "''Again''"
       "Some (load_conversation_history 1 sample_session 2)" default_settings sample_env]
  have "call_input (turn_call default_settings sample_env ''alice'' ''Again''
                 (Some (load_conversation_history 1 sample_session 2))) =
     map (\<lambda>m. [(''role'', role_value (role m)), (''content'', content m)])
         (load_conversation_history 1 sample_session 2)
       @ [[(''role'', ''user''), (''content'', ''[User ID: '' @ ''alice'' @ '']\<newline>'' @ ''Again'')]] \<and>
     instructions (call_agent (turn_call default_settings sample_env ''alice'' ''Again''
                 (Some (load_conversation_history 1 sample_session 2))))
       = get_system_prompt (now_strftime sample_env) \<and>
     sublist (now_strftime sample_env) (get_system_prompt (now_strftime sample_env))"
    by simp
  then show ?thesis
    unfolding loaded clock by (simp add: sample_message_def)
qed

section \<open>Streaming against the final answer\<close>

lemma streamed_not_abandoned:
  assumes "connects st e"
    and "snd (fst (run_agent_streamed st e uid message h)) \<noteq> Abandoned"
  shows "stream_consumer e \<noteq> Some 0"
    and "snd (fst (turn_stream st e uid message h)) \<noteq> Abandoned"
  using assms
  by (auto simp add: run_agent_streamed_unfold connects_def split: if_splits)

lemma streamed_chunks_are_text_deltas:
  assumes "connects st e" and "stream_consumer e = None"
  shows "fst (fst (run_agent_streamed st e uid message h)) =
           map delta_of (filter is_text_delta
             (stream_events (stream_items (runner_run_streamed e (turn_call st e uid message h)))))"
  using assms
  by (simp add: run_agent_streamed_unfold connects_def turn_stream_def chunks_stream_loop)

text \<open>
  Claim C7. The concatenation of the chunks of the streamed entry point is to equal the
  answer of the non-streamed entry point for the same response. For a response without
  text the code does not give this: the streamed entry point ends normally without a
  chunk, so that the concatenation is the empty string, while the non-streamed entry
  point, which guards against an empty final output, answers with its fixed apology.
\<close>

theorem streamed_chunks_differ_from_fallback:
  "fst (run_agent_streamed default_settings silent_env ''alice'' ''Hello'' None) = ([], Finished) \<and>
   concat (fst (fst (run_agent_streamed default_settings silent_env ''alice'' ''Hello'' None))) = [] \<and>
   fst (run_agent default_settings silent_env ''alice'' ''Hello'' None) = Inr no_response_message \<and>
   fst (run_agent default_settings silent_env ''alice'' ''Hello'' None)
     \<noteq> Inr (concat (fst (fst (run_agent_streamed default_settings silent_env
                                  ''alice'' ''Hello'' None))))"
proof -
  have loop: "turn_stream default_settings silent_env ''alice'' ''Hello'' None
                = (([], Finished), [])"
    by (simp add: turn_stream_def silent_env_def sample_env_def)
  have s: "fst (run_agent_streamed default_settings silent_env ''alice'' ''Hello'' None)
             = ([], Finished)"
    unfolding run_agent_streamed_unfold loop
    by (simp add: has_api_key_def silent_env_def sample_env_def)
  have r: "fst (run_agent default_settings silent_env ''alice'' ''Hello'' None)
             = Inr no_response_message"
    by (simp add: fst_run_agent has_api_key_def silent_env_def sample_env_def answer_of_def)
  from s r no_response_message_nonempty show ?thesis by simp
qed

section \<open>Tool invocations\<close>

text \<open>
  Claim C1, as stated, fails: when the run invokes the same tool with the same arguments
  twice, the turn has two invocations; \<^verbatim>\<open>run_agent\<close> suppresses nothing.
\<close>

theorem repeated_tool_call_invoked_twice:
  "invoked (snd (run_agent default_settings repeating_env ''alice'' ''Buy milk'' None)) =
     [(''add_task'', [(''user_id'', ''alice''), (''title'', ''Buy milk'')]),
      (''add_task'', [(''user_id'', ''alice''), (''title'', ''Buy milk'')])]"
  by (simp add: invoked_run_agent) (simp add: repeating_env_def)

text \<open>
  Claim C1, amended. \<^verbatim>\<open>run_agent\<close> keeps no set of seen signatures: it calls the
  \<^verbatim>\<open>Runner\<close> at most once, and the tool invocations of the turn are exactly those of
  that run, in order and with their repetitions. Single execution is asked of the model
  only: the instructions of the agent contain the prompt's line on single execution.
\<close>

theorem tool_invocations_are_the_runs:
  "invoked (snd (run_agent st e uid message h)) =
     (if connects st e then tool_calls (runner_run e (turn_call st e uid message h)) else []) \<and>
   length (runner_calls (snd (run_agent st e uid message h))) \<le> 1 \<and>
   (\<forall>call \<in> set (runner_calls (snd (run_agent st e uid message h))).
      sublist single_execution_rule (instructions (call_agent call)))"
  by (simp add: invoked_run_agent runner_calls_run_agent sublist_single_execution_rule)

theorem tool_invocations_are_the_runs_witness:
  "invoked (snd (run_agent default_settings sample_env ''alice'' ''Buy milk'' None)) =
     [(''add_task'', [(''user_id'', ''alice''), (''title'', ''Buy milk'')])] \<and>
   sublist single_execution_rule
     (instructions (call_agent (turn_call default_settings sample_env ''alice'' ''Buy milk'' None)))"
proof -
  have called: "turn_call default_settings sample_env ''alice'' ''Buy milk'' None
      \<in> set (runner_calls (snd (run_agent default_settings sample_env ''alice'' ''Buy milk'' None)))"
    by (simp add: runner_calls_run_agent)
  have ran: "tool_calls (runner_run sample_env
               (turn_call default_settings sample_env ''alice'' ''Buy milk'' None)) =
     [(''add_task'', [(''user_id'', ''alice''), (''title'', ''Buy milk'')])]"
    by (simp add: sample_env_def)
  have c: "connects default_settings sample_env" by simp
  from called c
    tool_invocations_are_the_runs [of default_settings sample_env "''alice''" "''Buy milk''" None]
  have "invoked (snd (run_agent default_settings sample_env ''alice'' ''Buy milk'' None)) =
      tool_calls (runner_run sample_env
               (turn_call default_settings sample_env ''alice'' ''Buy milk'' None)) \<and>
    sublist single_execution_rule
     (instructions (call_agent (turn_call default_settings sample_env ''alice'' ''Buy milk'' None)))"
    by (metis (full_types))
  then show ?thesis unfolding ran .
qed

text \<open>
  Claim C2, as stated, fails: the user id \<^verbatim>\<open>alice\<close> is passed as call context, and
  the tool invocation of the run carries the user id \<^verbatim>\<open>mallory\<close>; nothing in
  \<^verbatim>\<open>run_agent\<close> overwrites it.
\<close>

theorem tool_call_user_id_from_run:
  "invoked (snd (run_agent default_settings echoing_env ''alice'' ''Show my tasks'' None)) =
     [(''list_tasks'', [(''user_id'', ''mallory'')])] \<and>
   map call_context
     (runner_calls (snd (run_agent default_settings echoing_env ''alice'' ''Show my tasks'' None)))
     = [[(''user_id'', ''alice'')]]"
  by (simp add: invoked_run_agent runner_calls_run_agent) (simp add: echoing_env_def)

text \<open>
  Claim C2, amended. Every call of the \<^verbatim>\<open>Runner\<close>, streamed or not, carries the
  user id out of band, as the call context \<^verbatim>\<open>{"user_id": user_id}\<close>, and in band, as
  the identity tag of the new user message; the instructions of the agent contain the
  prompt's line that asks the model to pass the user id to every tool call. No step of
  the repository touches the tool invocations: those of a turn are those of the run,
  with their arguments unchanged. In a streamed turn they are the invocations the run
  made up to the point where the generator stopped, all of them unless the generator is
  left suspended.
\<close>

theorem user_id_carried_as_context:
  "(\<forall>call \<in> set (runner_calls (snd (run_agent st e uid message h)))
              \<union> set (runner_calls (snd (run_agent_streamed st e uid message h))).
      call_context call = [(''user_id'', uid)] \<and>
      map_of (last (call_input call)) ''content''
        = Some (''[User ID: '' @ uid @ '']\<newline>'' @ message) \<and>
      sublist security_rule (instructions (call_agent call))) \<and>
   map snd (invoked (snd (run_agent st e uid message h))) =
     (if connects st e
      then map snd (tool_calls (runner_run e (turn_call st e uid message h))) else []) \<and>
   prefix (invoked (snd (run_agent_streamed st e uid message h)))
     (stream_tools (stream_items (runner_run_streamed e (turn_call st e uid message h)))) \<and>
   (connects st e \<and> snd (fst (run_agent_streamed st e uid message h)) \<noteq> Abandoned \<longrightarrow>
      invoked (snd (run_agent_streamed st e uid message h))
        = stream_tools (stream_items (runner_run_streamed e (turn_call st e uid message h))))"
proof (intro conjI ballI impI)
  fix call
  assume "call \<in> set (runner_calls (snd (run_agent st e uid message h)))
              \<union> set (runner_calls (snd (run_agent_streamed st e uid message h)))"
  then have call: "call = turn_call st e uid message h"
    by (auto simp add: runner_calls_run_agent runner_calls_run_agent_streamed split: if_splits)
  show "call_context call = [(''user_id'', uid)]"
    unfolding call by simp
  show "map_of (last (call_input call)) ''content''
        = Some (''[User ID: '' @ uid @ '']\<newline>'' @ message)"
    unfolding call by (simp add: build_input_eq)
  show "sublist security_rule (instructions (call_agent call))"
    unfolding call by (simp add: sublist_security_rule)
next
  show "map snd (invoked (snd (run_agent st e uid message h))) =
     (if connects st e
      then map snd (tool_calls (runner_run e (turn_call st e uid message h))) else [])"
    by (simp add: invoked_run_agent)
next
  have "prefix (invoked (snd (turn_stream st e uid message h)))
     (stream_tools (stream_items (runner_run_streamed e (turn_call st e uid message h))))"
    unfolding turn_stream_def by (rule invoked_stream_loop_prefix)
  then show "prefix (invoked (snd (run_agent_streamed st e uid message h)))
     (stream_tools (stream_items (runner_run_streamed e (turn_call st e uid message h))))"
    by (simp add: invoked_run_agent_streamed)
next
  assume a: "connects st e \<and> snd (fst (run_agent_streamed st e uid message h)) \<noteq> Abandoned"
  then have c: "stream_consumer e \<noteq> Some 0"
    and l: "snd (fst (turn_stream st e uid message h)) \<noteq> Abandoned"
    using streamed_not_abandoned [of st e uid message h] by blast+
  from l have "invoked (snd (turn_stream st e uid message h))
        = stream_tools (stream_items (runner_run_streamed e (turn_call st e uid message h)))"
    unfolding turn_stream_def by (rule invoked_stream_loop_all)
  with a c show "invoked (snd (run_agent_streamed st e uid message h))
        = stream_tools (stream_items (runner_run_streamed e (turn_call st e uid message h)))"
    by (simp add: invoked_run_agent_streamed)
qed

theorem user_id_carried_as_context_witness:
  "call_context (turn_call default_settings sample_env ''alice'' ''Buy milk'' None)
     = [(''user_id'', ''alice'')] \<and>
   map_of (last (call_input (turn_call default_settings sample_env ''alice'' ''Buy milk'' None)))
     ''content'' = Some ''[User ID: alice]\<newline>Buy milk'' \<and>
   map snd (invoked (snd (run_agent default_settings sample_env ''alice'' ''Buy milk'' None)))
     = [[(''user_id'', ''alice''), (''title'', ''Buy milk'')]] \<and>
   invoked (snd (run_agent_streamed default_settings sample_env ''alice'' ''Buy milk'' None))
     = [(''add_task'', [(''user_id'', ''alice''), (''title'', ''Buy milk'')])]"
proof -
  have called: "turn_call default_settings sample_env ''alice'' ''Buy milk'' None
      \<in> set (runner_calls (snd (run_agent default_settings sample_env ''alice'' ''Buy milk'' None)))"
    by (simp add: runner_calls_run_agent)
  have ran: "tool_calls (runner_run sample_env
               (turn_call default_settings sample_env ''alice'' ''Buy milk'' None)) =
     [(''add_task'', [(''user_id'', ''alice''), (''title'', ''Buy milk'')])]"
    by (simp add: sample_env_def)
  have streamed: "stream_tools (stream_items (runner_run_streamed sample_env
               (turn_call default_settings sample_env ''alice'' ''Buy milk'' None))) =
     [(''add_task'', [(''user_id'', ''alice''), (''title'', ''Buy milk'')])]"
    by (simp add: sample_env_def sample_items_def)
  have c: "connects default_settings sample_env" by simp
  have loop: "turn_stream default_settings sample_env ''alice'' ''Buy milk'' None =
      (([''Task '', ''added.''], Finished),
       [ToolInvoked ''add_task'' [(''user_id'', ''alice''), (''title'', ''Buy milk'')]])"
    by (simp add: turn_stream_def sample_env_def sample_items_def)
  have ended: "snd (fst (run_agent_streamed default_settings sample_env
                           ''alice'' ''Buy milk'' None)) \<noteq> Abandoned"
    unfolding run_agent_streamed_unfold loop
    by (simp add: sample_env_def has_api_key_def)
  from called
    user_id_carried_as_context [of default_settings sample_env "''alice''" "''Buy milk''" None]
  have 1: "call_context (turn_call default_settings sample_env ''alice'' ''Buy milk'' None)
        = [(''user_id'', ''alice'')] \<and>
     map_of (last (call_input (turn_call default_settings sample_env ''alice'' ''Buy milk'' None)))
        ''content'' = Some (''[User ID: '' @ ''alice'' @ '']\<newline>'' @ ''Buy milk'')"
    by blast
  from c
    user_id_carried_as_context [of default_settings sample_env "''alice''" "''Buy milk''" None]
  have 2: "map snd (invoked (snd (run_agent default_settings sample_env ''alice'' ''Buy milk'' None)))
      = map snd (tool_calls (runner_run sample_env
               (turn_call default_settings sample_env ''alice'' ''Buy milk'' None)))"
    by simp
  from c ended
    user_id_carried_as_context [of default_settings sample_env "''alice''" "''Buy milk''" None]
  have 3: "invoked (snd (run_agent_streamed default_settings sample_env ''alice'' ''Buy milk'' None))
      = stream_tools (stream_items (runner_run_streamed sample_env
               (turn_call default_settings sample_env ''alice'' ''Buy milk'' None)))"
    by blast
  from 1 2 3 show ?thesis unfolding ran streamed by simp
qed

section \<open>The end of a turn\<close>

lemma answer_of_Inr:
  "answer_of r = Inr a \<Longrightarrow> a = no_response_message \<or> r = Inr (Some a)"
  by (auto simp add: answer_of_def split: sum.splits option.splits if_splits)

lemma answer_of_Inl: "answer_of (Inl x) = Inl x"
  by (simp add: answer_of_def)

lemma run_agent_raises_run_exception:
  "connects st e \<Longrightarrow> mcp_aexit e (todo_server st) \<noteq> Some CancelledError \<Longrightarrow>
   run_result (runner_run e (turn_call st e uid message h)) = Inl x \<Longrightarrow>
   fst (run_agent st e uid message h) = Inl x"
  by (simp add: fst_run_agent connects_def answer_of_Inl)

text \<open>
  Claim C3, as stated, fails: the configuration has no iteration cap, and a run that ends
  with the library's turn-limit exception makes the turn raise that exception; no answer
  with a truncation notice is returned.
\<close>

theorem turn_limit_exception_raised:
  "fst (run_agent default_settings max_turns_env ''alice'' ''Hello'' None)
     = Inl (Exception ''Max turns (10) exceeded'') \<and>
   map fst (get_agent_config default_settings) =
     [''model'', ''temperature'', ''max_tokens'', ''mcp_server_url'', ''mcp_timeout_seconds'',
      ''max_conversation_history'']"
proof -
  have "fst (run_agent default_settings max_turns_env ''alice'' ''Hello'' None)
     = Inl (Exception ''Max turns (10) exceeded'')"
  proof (rule run_agent_raises_run_exception)
    show "connects default_settings max_turns_env" by simp
    show "mcp_aexit max_turns_env (todo_server default_settings) \<noteq> Some CancelledError"
      by (simp add: max_turns_env_def sample_env_def)
    show "run_result (runner_run max_turns_env
             (turn_call default_settings max_turns_env ''alice'' ''Hello'' None))
           = Inl (Exception ''Max turns (10) exceeded'')"
      by (simp add: max_turns_env_def)
  qed
  then show ?thesis by (simp add: get_agent_config_def)
qed

text \<open>
  Claim C3, amended. The configuration has six entries, none an iteration cap.
  \<^verbatim>\<open>run_agent\<close> calls the \<^verbatim>\<open>Runner\<close> at most once and the turn ends as that
  call ends. An answer is the run's final output or the fixed apology. When the turn
  connects and is not cancelled while the connection is closed, a non-empty final output
  is returned unchanged, an empty or absent one is replaced by the fixed apology, and an
  exception of the run is raised to the caller.
\<close>

theorem turn_ends_with_the_run:
  "map fst (get_agent_config st) =
     [''model'', ''temperature'', ''max_tokens'', ''mcp_server_url'', ''mcp_timeout_seconds'',
      ''max_conversation_history''] \<and>
   length (runner_calls (snd (run_agent st e uid message h))) \<le> 1 \<and>
   (\<forall>answer. fst (run_agent st e uid message h) = Inr answer \<longrightarrow>
      answer = no_response_message \<or>
      run_result (runner_run e (turn_call st e uid message h)) = Inr (Some answer)) \<and>
   (connects st e \<and> mcp_aexit e (todo_server st) \<noteq> Some CancelledError \<longrightarrow>
      (\<forall>out. run_result (runner_run e (turn_call st e uid message h)) = Inr (Some out) \<and>
             out \<noteq> [] \<longrightarrow> fst (run_agent st e uid message h) = Inr out) \<and>
      (run_result (runner_run e (turn_call st e uid message h)) = Inr None \<or>
       run_result (runner_run e (turn_call st e uid message h)) = Inr (Some [])
         \<longrightarrow> fst (run_agent st e uid message h) = Inr no_response_message) \<and>
      (\<forall>x. run_result (runner_run e (turn_call st e uid message h)) = Inl x
           \<longrightarrow> fst (run_agent st e uid message h) = Inl x))"
proof (intro conjI allI impI)
  show "map fst (get_agent_config st) =
     [''model'', ''temperature'', ''max_tokens'', ''mcp_server_url'', ''mcp_timeout_seconds'',
      ''max_conversation_history'']"
    by (simp add: get_agent_config_def)
  show "length (runner_calls (snd (run_agent st e uid message h))) \<le> 1"
    by (simp add: runner_calls_run_agent)
next
  fix answer assume "fst (run_agent st e uid message h) = Inr answer"
  then show "answer = no_response_message \<or>
      run_result (runner_run e (turn_call st e uid message h)) = Inr (Some answer)"
    by (auto simp add: fst_run_agent dest: answer_of_Inr split: if_splits option.splits)
next
  fix out
  assume c: "connects st e \<and> mcp_aexit e (todo_server st) \<noteq> Some CancelledError"
    and r: "run_result (runner_run e (turn_call st e uid message h)) = Inr (Some out) \<and> out \<noteq> []"
  from c have "fst (run_agent st e uid message h)
      = answer_of (run_result (runner_run e (turn_call st e uid message h)))"
    by (simp add: fst_run_agent connects_def)
  with r show "fst (run_agent st e uid message h) = Inr out"
    by (simp add: answer_of_def)
next
  assume c: "connects st e \<and> mcp_aexit e (todo_server st) \<noteq> Some CancelledError"
    and r: "run_result (runner_run e (turn_call st e uid message h)) = Inr None \<or>
       run_result (runner_run e (turn_call st e uid message h)) = Inr (Some [])"
  from c have "fst (run_agent st e uid message h)
      = answer_of (run_result (runner_run e (turn_call st e uid message h)))"
    by (simp add: fst_run_agent connects_def)
  with r show "fst (run_agent st e uid message h) = Inr no_response_message"
    by (auto simp add: answer_of_def)
next
  fix x
  assume "connects st e \<and> mcp_aexit e (todo_server st) \<noteq> Some CancelledError"
    and "run_result (runner_run e (turn_call st e uid message h)) = Inl x"
  then show "fst (run_agent st e uid message h) = Inl x"
    by (simp add: run_agent_raises_run_exception)
qed

theorem turn_ends_with_the_run_witness:
  "fst (run_agent default_settings sample_env ''alice'' ''Buy milk'' None) = Inr ''Task added.'' \<and>
   fst (run_agent default_settings silent_env ''alice'' ''Hello'' None) = Inr no_response_message \<and>
   fst (run_agent default_settings max_turns_env ''alice'' ''Hello'' None)
     = Inl (Exception ''Max turns (10) exceeded'')"
proof -
  have c1: "connects default_settings sample_env" by simp
  have x1: "mcp_aexit sample_env (todo_server default_settings) \<noteq> Some CancelledError"
    by (simp add: sample_env_def)
  have r1: "run_result (runner_run sample_env
             (turn_call default_settings sample_env ''alice'' ''Buy milk'' None))
           = Inr (Some ''Task added.'')"
    by (simp add: sample_env_def)
  have n1: "''Task added.'' \<noteq> ([] :: string)" by simp
  from c1 x1 r1 n1
    turn_ends_with_the_run [of default_settings sample_env "''alice''" "''Buy milk''" None]
  have 1: "fst (run_agent default_settings sample_env ''alice'' ''Buy milk'' None)
             = Inr ''Task added.''"
    by blast
  have c2: "connects default_settings silent_env" by simp
  have x2: "mcp_aexit silent_env (todo_server default_settings) \<noteq> Some CancelledError"
    by (simp add: silent_env_def sample_env_def)
  have r2: "run_result (runner_run silent_env
             (turn_call default_settings silent_env ''alice'' ''Hello'' None)) = Inr (Some [])"
    by (simp add: silent_env_def)
  from c2 x2 r2
    turn_ends_with_the_run [of default_settings silent_env "''alice''" "''Hello''" None]
  have 2: "fst (run_agent default_settings silent_env ''alice'' ''Hello'' None)
             = Inr no_response_message"
    by blast
  have c3: "connects default_settings max_turns_env" by simp
  have x3: "mcp_aexit max_turns_env (todo_server default_settings) \<noteq> Some CancelledError"
    by (simp add: max_turns_env_def sample_env_def)
  have r3: "run_result (runner_run max_turns_env
             (turn_call default_settings max_turns_env ''alice'' ''Hello'' None))
           = Inl (Exception ''Max turns (10) exceeded'')"
    by (simp add: max_turns_env_def)
  from c3 x3 r3
    turn_ends_with_the_run [of default_settings max_turns_env "''alice''" "''Hello''" None]
  have 3: "fst (run_agent default_settings max_turns_env ''alice'' ''Hello'' None)
     = Inl (Exception ''Max turns (10) exceeded'')"
    by blast
  from 1 2 3 show ?thesis by blast
qed

text \<open>
  Claim C9, as stated, fails: when the MCP server cannot be reached, the turn makes one
  connection attempt and raises the exception of that attempt, with its text.
\<close>

theorem connection_failure_raised_after_one_attempt:
  "run_agent default_settings unreachable_env ''alice'' ''Hello'' None =
     (Inl (Exception ''All connection attempts failed''),
      [McpEnter (todo_server default_settings)
         (Some (Exception ''All connection attempts failed''))])"
  by (simp add: run_agent_unfold) (simp add: unreachable_env_def)

text \<open>
  Claim C9, amended. \<^verbatim>\<open>run_agent\<close> retries nothing: a turn makes at most one
  connection attempt and at most one call of the \<^verbatim>\<open>Runner\<close>. When the connection
  attempt raises, the turn raises the same exception after that one attempt; when the run
  raises (and the connection closes normally), the turn raises the same exception after
  that one call.
\<close>

theorem failures_raised_without_retry:
  "enter_attempts (snd (run_agent st e uid message h)) \<le> 1 \<and>
   length (runner_calls (snd (run_agent st e uid message h))) \<le> 1 \<and>
   (\<forall>x. has_api_key e \<and> mcp_aenter e (todo_server st) = Some x
        \<longrightarrow> run_agent st e uid message h = (Inl x, [McpEnter (todo_server st) (Some x)])) \<and>
   (\<forall>x. connects st e \<and> mcp_aexit e (todo_server st) = None \<and>
        run_result (runner_run e (turn_call st e uid message h)) = Inl x
        \<longrightarrow> fst (run_agent st e uid message h) = Inl x \<and>
            runner_calls (snd (run_agent st e uid message h)) = [turn_call st e uid message h])"
proof (intro conjI allI impI)
  show "enter_attempts (snd (run_agent st e uid message h)) \<le> 1"
    by (simp add: enter_attempts_run_agent)
  show "length (runner_calls (snd (run_agent st e uid message h))) \<le> 1"
    by (simp add: runner_calls_run_agent)
next
  fix x assume "has_api_key e \<and> mcp_aenter e (todo_server st) = Some x"
  then show "run_agent st e uid message h = (Inl x, [McpEnter (todo_server st) (Some x)])"
    by (simp add: run_agent_unfold)
next
  fix x assume a: "connects st e \<and> mcp_aexit e (todo_server st) = None \<and>
        run_result (runner_run e (turn_call st e uid message h)) = Inl x"
  then show "fst (run_agent st e uid message h) = Inl x"
    by (simp add: run_agent_raises_run_exception)
  from a show "runner_calls (snd (run_agent st e uid message h)) = [turn_call st e uid message h]"
    by (simp add: runner_calls_run_agent)
qed

theorem failures_raised_without_retry_witness:
  "enter_attempts (snd (run_agent default_settings unreachable_env ''alice'' ''Hello'' None)) = 1 \<and>
   fst (run_agent default_settings unreachable_env ''alice'' ''Hello'' None)
     = Inl (Exception ''All connection attempts failed'') \<and>
   fst (run_agent default_settings max_turns_env ''alice'' ''Hello'' None)
     = Inl (Exception ''Max turns (10) exceeded'') \<and>
   length (runner_calls (snd (run_agent default_settings max_turns_env ''alice'' ''Hello'' None))) = 1"
proof -
  have k: "has_api_key unreachable_env" by simp
  have u: "mcp_aenter unreachable_env (todo_server default_settings)
             = Some (Exception ''All connection attempts failed'')"
    by (simp add: unreachable_env_def)
  from k u
    failures_raised_without_retry [of default_settings unreachable_env "''alice''" "''Hello''" None]
  have 1: "run_agent default_settings unreachable_env ''alice'' ''Hello'' None =
     (Inl (Exception ''All connection attempts failed''),
      [McpEnter (todo_server default_settings)
         (Some (Exception ''All connection attempts failed''))])"
    by blast
  have c: "connects default_settings max_turns_env" by simp
  have x: "mcp_aexit max_turns_env (todo_server default_settings) = None"
    by (simp add: max_turns_env_def sample_env_def)
  have r: "run_result (runner_run max_turns_env
             (turn_call default_settings max_turns_env ''alice'' ''Hello'' None))
           = Inl (Exception ''Max turns (10) exceeded'')"
    by (simp add: max_turns_env_def)
  from c x r
    failures_raised_without_retry [of default_settings max_turns_env "''alice''" "''Hello''" None]
  have 2: "fst (run_agent default_settings max_turns_env ''alice'' ''Hello'' None)
             = Inl (Exception ''Max turns (10) exceeded'') \<and>
           runner_calls (snd (run_agent default_settings max_turns_env ''alice'' ''Hello'' None))
             = [turn_call default_settings max_turns_env ''alice'' ''Hello'' None]"
    by blast
  from 1 2 show ?thesis by simp
qed

end
